theory Spec2Isabelle
  imports Main "HOL-Library.Word" "HOL-Library.Signed_Division"
begin

unbundle bit_operations_syntax

section \<open>Machine integers of the Go source\<close>

text \<open>
  Go's \<open>int64\<close> and \<open>uint64\<close> are both 64-bit words; \<open>+\<close>, \<open>-\<close> and \<open>*\<close> wrap around
  silently. On \<open>int64\<close> the comparisons are the signed ones (\<open><s\<close>, \<open>\<le>s\<close>), and \<open>/\<close>
  and \<open>%\<close> truncate toward zero (the remainder has the sign of the dividend); the quotient
  of the most negative value by \<open>-1\<close> wraps to the most negative value. On \<open>uint64\<close> the
  comparisons and \<open>/\<close> are the unsigned ones of the word type.
\<close>

type_synonym int64 = "64 word"
type_synonym uint64 = "64 word"

definition MaxInt64 :: int64 where
  "MaxInt64 = 9223372036854775807"

definition MinInt64 :: int64 where
  "MinInt64 = - 9223372036854775808"

definition MaxUint64 :: uint64 where
  "MaxUint64 = 18446744073709551615"

text \<open>Go's \<open>x / y\<close> on \<open>int64\<close> (the callers below never divide by zero).\<close>

definition quo64 :: "int64 \<Rightarrow> int64 \<Rightarrow> int64" where
  "quo64 x y = word_of_int (sint x sdiv sint y)"

text \<open>Go's \<open>x % y\<close> on \<open>int64\<close>.\<close>

definition rem64 :: "int64 \<Rightarrow> int64 \<Rightarrow> int64" where
  "rem64 x y = word_of_int (sint x smod sint y)"

section \<open>Package errors\<close>

text \<open>
  The fields \<open>A\<close>, \<open>B\<close>, \<open>Value\<close> and \<open>Limit\<close> are \<open>interface{}\<close> values: they hold
  the operand together with its dynamic type.
\<close>

datatype operand = Int64 int64 | Uint64 uint64

datatype error =
    ErrOverflow
  | ErrDivideByZero
  | ErrNegativeValue
  | ErrExceedsLimit
  | ErrInvalidPrecision
  | ErrInvalidRounding
  | OverflowError (Operation: string) (A: operand) (B: operand)
  | LimitError (Value: operand) (Limit: operand) (LimitOperation: string)

definition NewOverflowError :: "string \<Rightarrow> operand \<Rightarrow> operand \<Rightarrow> error" where
  "NewOverflowError op a b = OverflowError op a b"

definition NewLimitError :: "operand \<Rightarrow> operand \<Rightarrow> string \<Rightarrow> error" where
  "NewLimitError v limit operation = LimitError v limit operation"

text \<open>
  \<open>errors.Is(err, target)\<close> for a sentinel \<open>target\<close>: the \<open>Is\<close> methods of the two
  structured errors, identity for the sentinels.
\<close>

fun error_Is :: "error \<Rightarrow> error \<Rightarrow> bool" where
  "error_Is (OverflowError op a b) target = (target = ErrOverflow)"
| "error_Is (LimitError v l op) target = (target = ErrExceedsLimit)"
| "error_Is e target = (e = target)"

section \<open>Package safeint\<close>

text \<open>A Go result \<open>(int64, error)\<close> is a pair; \<open>None\<close> is the \<open>nil\<close> error.\<close>

definition safeint_Add :: "int64 \<Rightarrow> int64 \<Rightarrow> int64 \<times> error option" where
  "safeint_Add a b =
    (if 0 <s b \<and> MaxInt64 - b <s a
     then (0, Some (NewOverflowError ''+'' (Int64 a) (Int64 b)))
     else if b <s 0 \<and> a <s MinInt64 - b
     then (0, Some (NewOverflowError ''+'' (Int64 a) (Int64 b)))
     else (a + b, None))"

definition safeint_Sub :: "int64 \<Rightarrow> int64 \<Rightarrow> int64 \<times> error option" where
  "safeint_Sub a b =
    (if b <s 0 \<and> MaxInt64 + b <s a
     then (0, Some (NewOverflowError ''-'' (Int64 a) (Int64 b)))
     else if 0 <s b \<and> a <s MinInt64 + b
     then (0, Some (NewOverflowError ''-'' (Int64 a) (Int64 b)))
     else (a - b, None))"

definition safeint_Mul :: "int64 \<Rightarrow> int64 \<Rightarrow> int64 \<times> error option" where
  "safeint_Mul a b =
    (if a = 0 \<or> b = 0 then (0, None)
     else if 0 <s a \<and> 0 <s b
     then (if quo64 MaxInt64 b <s a
           then (0, Some (NewOverflowError ''*'' (Int64 a) (Int64 b)))
           else (a * b, None))
     else if a <s 0 \<and> b <s 0
     then (if a <s quo64 MaxInt64 b
           then (0, Some (NewOverflowError ''*'' (Int64 a) (Int64 b)))
           else (a * b, None))
     else if 0 <s a \<and> b <s 0
     then (if b <s quo64 MinInt64 a
           then (0, Some (NewOverflowError ''*'' (Int64 a) (Int64 b)))
           else (a * b, None))
     else if a <s 0 \<and> 0 <s b
     then (if a <s quo64 MinInt64 b
           then (0, Some (NewOverflowError ''*'' (Int64 a) (Int64 b)))
           else (a * b, None))
     else (a * b, None))"

definition safeint_AddWithLimit :: "int64 \<Rightarrow> int64 \<Rightarrow> int64 \<Rightarrow> int64 \<times> error option" where
  "safeint_AddWithLimit a b limit =
    (case safeint_Add a b of
       (result, Some err) \<Rightarrow> (0, Some err)
     | (result, None) \<Rightarrow>
         if limit <s result
         then (0, Some (NewLimitError (Int64 result) (Int64 limit) ''addition''))
         else (result, None))"

definition safeint_SubWithFloor :: "int64 \<Rightarrow> int64 \<Rightarrow> int64 \<Rightarrow> int64 \<times> error option" where
  "safeint_SubWithFloor a b floor =
    (case safeint_Sub a b of
       (result, Some err) \<Rightarrow> (0, Some err)
     | (result, None) \<Rightarrow>
         if result <s floor
         then (0, Some (NewLimitError (Int64 result) (Int64 floor) ''subtraction floor''))
         else (result, None))"

definition safeint_MulWithLimit :: "int64 \<Rightarrow> int64 \<Rightarrow> int64 \<Rightarrow> int64 \<times> error option" where
  "safeint_MulWithLimit a b limit =
    (case safeint_Mul a b of
       (result, Some err) \<Rightarrow> (0, Some err)
     | (result, None) \<Rightarrow>
         if limit <s result
         then (0, Some (NewLimitError (Int64 result) (Int64 limit) ''multiplication''))
         else (result, None))"

section \<open>Package safeuint\<close>

definition safeuint_Add :: "uint64 \<Rightarrow> uint64 \<Rightarrow> uint64 \<times> error option" where
  "safeuint_Add a b =
    (if 0 < b \<and> MaxUint64 - b < a
     then (0, Some (NewOverflowError ''+'' (Uint64 a) (Uint64 b)))
     else (a + b, None))"

definition safeuint_Sub :: "uint64 \<Rightarrow> uint64 \<Rightarrow> uint64 \<times> error option" where
  "safeuint_Sub a b =
    (if a < b
     then (0, Some (NewOverflowError ''-'' (Uint64 a) (Uint64 b)))
     else (a - b, None))"

definition safeuint_Mul :: "uint64 \<Rightarrow> uint64 \<Rightarrow> uint64 \<times> error option" where
  "safeuint_Mul a b =
    (if a = 0 \<or> b = 0 then (0, None)
     else if MaxUint64 div b < a
     then (0, Some (NewOverflowError ''*'' (Uint64 a) (Uint64 b)))
     else (a * b, None))"

definition safeuint_AddWithLimit :: "uint64 \<Rightarrow> uint64 \<Rightarrow> uint64 \<Rightarrow> uint64 \<times> error option" where
  "safeuint_AddWithLimit a b limit =
    (case safeuint_Add a b of
       (result, Some err) \<Rightarrow> (0, Some err)
     | (result, None) \<Rightarrow>
         if limit < result
         then (0, Some (NewLimitError (Uint64 result) (Uint64 limit) ''addition''))
         else (result, None))"

definition safeuint_SubWithFloor :: "uint64 \<Rightarrow> uint64 \<Rightarrow> uint64 \<Rightarrow> uint64 \<times> error option" where
  "safeuint_SubWithFloor a b floor =
    (case safeuint_Sub a b of
       (result, Some err) \<Rightarrow> (0, Some err)
     | (result, None) \<Rightarrow>
         if result < floor
         then (0, Some (NewLimitError (Uint64 result) (Uint64 floor) ''subtraction floor''))
         else (result, None))"

definition safeuint_MulWithLimit :: "uint64 \<Rightarrow> uint64 \<Rightarrow> uint64 \<Rightarrow> uint64 \<times> error option" where
  "safeuint_MulWithLimit a b limit =
    (case safeuint_Mul a b of
       (result, Some err) \<Rightarrow> (0, Some err)
     | (result, None) \<Rightarrow>
         if limit < result
         then (0, Some (NewLimitError (Uint64 result) (Uint64 limit) ''multiplication''))
         else (result, None))"

section \<open>Package rounding\<close>

text \<open>\<open>type Mode int\<close>: the seven constants are the tags 0 to 6, any other integer is
  a \<open>Mode\<close> value too.\<close>

type_synonym Mode = int

definition RoundDown :: Mode where "RoundDown = 0"
definition RoundUp :: Mode where "RoundUp = 1"
definition RoundHalfUp :: Mode where "RoundHalfUp = 2"
definition RoundHalfDown :: Mode where "RoundHalfDown = 3"
definition RoundHalfEven :: Mode where "RoundHalfEven = 4"
definition RoundCeiling :: Mode where "RoundCeiling = 5"
definition RoundFloor :: Mode where "RoundFloor = 6"

definition valid_mode :: "Mode \<Rightarrow> bool" where
  "valid_mode m = (m = RoundDown \<or> m = RoundUp \<or> m = RoundHalfUp \<or> m = RoundHalfDown
     \<or> m = RoundHalfEven \<or> m = RoundCeiling \<or> m = RoundFloor)"

subsection \<open>RoundInt64\<close>

definition RoundInt64 :: "int64 \<Rightarrow> int64 \<Rightarrow> Mode \<Rightarrow> int64 \<times> error option" where
  "RoundInt64 v unit mode =
    (if unit \<le>s 0 then (0, Some ErrInvalidPrecision)
     else if mode = RoundDown then
       (if 0 \<le>s v then (quo64 v unit * unit, None)
        else (quo64 (v + unit - 1) unit * unit, None))
     else if mode = RoundUp then
       (if 0 \<le>s v then (quo64 (v + unit - 1) unit * unit, None)
        else (quo64 v unit * unit, None))
     else if mode = RoundHalfUp then
       (let halfUnit = quo64 unit 2 in
        if 0 \<le>s v then (quo64 (v + halfUnit) unit * unit, None)
        else (quo64 (v - halfUnit) unit * unit, None))
     else if mode = RoundHalfDown then
       (let halfUnit = quo64 unit 2 in
        if 0 \<le>s v then
          (if rem64 v unit = halfUnit then (quo64 v unit * unit, None)
           else (quo64 (v + halfUnit) unit * unit, None))
        else if rem64 (- v) unit = halfUnit then (quo64 v unit * unit, None)
        else (quo64 (v - halfUnit) unit * unit, None))
     else if mode = RoundHalfEven then
       (let halfUnit = quo64 unit 2 in
        if rem64 v unit = halfUnit \<or> rem64 v unit = - halfUnit then
          (let quotient = quo64 v unit in
           if rem64 quotient 2 = 0 then (quotient * unit, None)
           else if 0 \<le>s quotient then ((quotient + 1) * unit, None)
           else ((quotient - 1) * unit, None))
        else if 0 \<le>s v then (quo64 (v + halfUnit) unit * unit, None)
        else (quo64 (v - halfUnit) unit * unit, None))
     else if mode = RoundCeiling then
       (if rem64 v unit = 0 then (v, None)
        else if 0 <s v then (quo64 (v + unit - 1) unit * unit, None)
        else (quo64 v unit * unit, None))
     else if mode = RoundFloor then
       (if rem64 v unit = 0 then (v, None)
        else if 0 <s v then (quo64 v unit * unit, None)
        else (quo64 (v - unit + 1) unit * unit, None))
     else (0, Some ErrInvalidRounding))"

subsection \<open>RoundFloat64\<close>

text \<open>
  A \<open>float64\<close> is its IEEE-754 bit pattern: sign bit 63, exponent bits 62 to 52,
  fraction bits 51 to 0. The classification of a value (NaN, infinite, sign, comparison
  with a constant) is computed on the bits. The rounded arithmetic of the hardware and of
  Go's \<open>math\<close> package is not part of the repository: it is a parameter of the model.
\<close>

type_synonym float64 = "64 word"

record float_ops =
  Pow10 :: "int \<Rightarrow> float64"
  fmul :: "float64 \<Rightarrow> float64 \<Rightarrow> float64"
  fdiv :: "float64 \<Rightarrow> float64 \<Rightarrow> float64"
  fadd :: "float64 \<Rightarrow> float64 \<Rightarrow> float64"
  fsub :: "float64 \<Rightarrow> float64 \<Rightarrow> float64"
  Trunc :: "float64 \<Rightarrow> float64"
  Ceil :: "float64 \<Rightarrow> float64"
  Floor :: "float64 \<Rightarrow> float64"
  Round :: "float64 \<Rightarrow> float64"
  Modf :: "float64 \<Rightarrow> float64 \<times> float64"
  Mod :: "float64 \<Rightarrow> float64 \<Rightarrow> float64"

definition float_zero :: float64 where "float_zero = 0"
definition float_half :: float64 where "float_half = 0x3FE0000000000000"
definition float_one :: float64 where "float_one = 0x3FF0000000000000"
definition float_two :: float64 where "float_two = 0x4000000000000000"
definition float_1e_10 :: float64 where "float_1e_10 = 0x3DDB7CDFD9D7BDBB"
definition float_pos_inf :: float64 where "float_pos_inf = 0x7FF0000000000000"
definition float_neg_inf :: float64 where "float_neg_inf = 0xFFF0000000000000"

text \<open>\<open>math.IsNaN\<close>: exponent all ones, fraction not zero.\<close>

definition IsNaN :: "float64 \<Rightarrow> bool" where
  "IsNaN f = (f AND 0x7FF0000000000000 = 0x7FF0000000000000 \<and> f AND 0x000FFFFFFFFFFFFF \<noteq> 0)"

text \<open>\<open>math.IsInf(f, sign)\<close>: either infinity when \<open>sign = 0\<close>, the positive one when
  \<open>sign > 0\<close>, the negative one when \<open>sign < 0\<close>.\<close>

definition IsInf :: "float64 \<Rightarrow> int \<Rightarrow> bool" where
  "IsInf f sign = (0 \<le> sign \<and> f = float_pos_inf \<or> sign \<le> 0 \<and> f = float_neg_inf)"

text \<open>\<open>math.Abs\<close> clears the sign bit.\<close>

definition Abs :: "float64 \<Rightarrow> float64" where
  "Abs f = f AND 0x7FFFFFFFFFFFFFFF"

text \<open>\<open>x == y\<close> on floats: false on a NaN, the two zeros are equal.\<close>

definition float_eq :: "float64 \<Rightarrow> float64 \<Rightarrow> bool" where
  "float_eq x y = (\<not> IsNaN x \<and> \<not> IsNaN y \<and> (x = y \<or> Abs x = 0 \<and> Abs y = 0))"

text \<open>\<open>x >= 0\<close> on floats: false on a NaN, true on both zeros.\<close>

definition float_ge_zero :: "float64 \<Rightarrow> bool" where
  "float_ge_zero x = (\<not> IsNaN x \<and> (Abs x = 0 \<or> \<not> bit x 63))"

definition RoundFloat64 :: "float_ops \<Rightarrow> float64 \<Rightarrow> int \<Rightarrow> Mode \<Rightarrow> float64 \<times> error option" where
  "RoundFloat64 fp v decimals mode =
    (if decimals < 0 then (float_zero, Some ErrInvalidPrecision)
     else if IsNaN v \<or> IsInf v 0 then (v, None)
     else
       (let multiplier = Pow10 fp decimals in
        if mode = RoundDown then
          (fdiv fp (Trunc fp (fmul fp v multiplier)) multiplier, None)
        else if mode = RoundUp then
          (if float_ge_zero v
           then (fdiv fp (Ceil fp (fmul fp v multiplier)) multiplier, None)
           else (fdiv fp (Floor fp (fmul fp v multiplier)) multiplier, None))
        else if mode = RoundHalfUp then
          (if float_ge_zero v
           then (fdiv fp (Floor fp (fadd fp (fmul fp v multiplier) float_half)) multiplier, None)
           else (fdiv fp (Ceil fp (fsub fp (fmul fp v multiplier) float_half)) multiplier, None))
        else if mode = RoundHalfDown then
          (if float_ge_zero v
           then (fdiv fp (Floor fp (fsub fp (fadd fp (fmul fp v multiplier) float_half)
                   float_1e_10)) multiplier, None)
           else (fdiv fp (Ceil fp (fadd fp (fsub fp (fmul fp v multiplier) float_half)
                   float_1e_10)) multiplier, None))
        else if mode = RoundHalfEven then
          (let scaled = fmul fp v multiplier;
               (intPart, fracPart) = Modf fp scaled in
           if float_eq (Abs fracPart) float_half then
             (if float_eq (Mod fp intPart float_two) float_zero
              then (fdiv fp intPart multiplier, None)
              else if float_ge_zero intPart
              then (fdiv fp (fadd fp intPart float_one) multiplier, None)
              else (fdiv fp (fsub fp intPart float_one) multiplier, None))
           else (fdiv fp (Round fp scaled) multiplier, None))
        else if mode = RoundCeiling then
          (fdiv fp (Ceil fp (fmul fp v multiplier)) multiplier, None)
        else if mode = RoundFloor then
          (fdiv fp (Floor fp (fmul fp v multiplier)) multiplier, None)
        else (float_zero, Some ErrInvalidRounding)))"

section \<open>Specification vocabulary\<close>

text \<open>The range of a signed 64-bit integer, on mathematical integers.\<close>

definition in_int64 :: "int \<Rightarrow> bool" where
  "in_int64 k = (- 9223372036854775808 \<le> k \<and> k \<le> 9223372036854775807)"

text \<open>The range of an unsigned 64-bit integer, on natural numbers.\<close>

definition in_uint64 :: "nat \<Rightarrow> bool" where
  "in_uint64 k = (k \<le> 18446744073709551615)"

section \<open>Signed words and truncating division\<close>

lemma sint_MaxInt64: "sint MaxInt64 = 9223372036854775807"
  by (simp add: MaxInt64_def)

lemma sint_MinInt64: "sint MinInt64 = - 9223372036854775808"
  by (simp add: MinInt64_def)

lemma sint64_lower: "- 9223372036854775808 \<le> sint (x :: int64)"
  using sint_ge [of x] by simp

lemma sint64_upper: "sint (x :: int64) \<le> 9223372036854775807"
  using sint_lt [of x] by simp

lemma stb63: "- 9223372036854775808 \<le> k \<Longrightarrow> k \<le> 9223372036854775807 \<Longrightarrow> signed_take_bit 63 (k::int) = k"
  by (rule signed_take_bit_int_eq_self) simp_all

lemma sint_add_exact:
  fixes a b :: int64
  assumes "- 9223372036854775808 \<le> sint a + sint b" "sint a + sint b \<le> 9223372036854775807"
  shows "sint (a + b) = sint a + sint b"
  using assms by (simp add: sint_word_add stb63)

lemma sint_sub_exact:
  fixes a b :: int64
  assumes "- 9223372036854775808 \<le> sint a - sint b" "sint a - sint b \<le> 9223372036854775807"
  shows "sint (a - b) = sint a - sint b"
  using assms by (simp add: sint_word_diff stb63)

lemma sint_mul_exact:
  fixes a b :: int64
  assumes "- 9223372036854775808 \<le> sint a * sint b" "sint a * sint b \<le> 9223372036854775807"
  shows "sint (a * b) = sint a * sint b"
  using assms by (simp add: sint_word_mult stb63)

lemma sint_quo64:
  assumes "- 9223372036854775808 \<le> sint x sdiv sint y" "sint x sdiv sint y \<le> 9223372036854775807"
  shows "sint (quo64 x y) = sint x sdiv sint y"
  using assms by (simp add: quo64_def sint_sbintrunc' stb63)

lemma sdiv_pos_pos: "0 \<le> (m::int) \<Longrightarrow> 0 < b \<Longrightarrow> m sdiv b = m div b"
  by (simp add: signed_divide_int_def sgn_if)

lemma sdiv_pos_neg: "0 \<le> (m::int) \<Longrightarrow> b < 0 \<Longrightarrow> m sdiv b = - (m div (- b))"
  by (simp add: signed_divide_int_def sgn_if)

lemma sdiv_neg_pos: "(m::int) \<le> 0 \<Longrightarrow> 0 < b \<Longrightarrow> m sdiv b = - ((- m) div b)"
  by (simp add: signed_divide_int_def sgn_if)

lemma sdiv_neg_neg: "(m::int) \<le> 0 \<Longrightarrow> b < 0 \<Longrightarrow> m sdiv b = (- m) div (- b)"
  by (simp add: signed_divide_int_def sgn_if)

lemma div_less_iff_int:
  fixes m a b :: int
  assumes "0 < b"
  shows "(m div b < a) = (m < a * b)"
proof
  assume h: "m div b < a"
  have "m = b * (m div b) + m mod b" by simp
  moreover have "m mod b < b" using assms by simp
  ultimately have "m < b * (m div b) + b" by linarith
  also have "\<dots> = b * (m div b + 1)" by (simp add: algebra_simps)
  also have "\<dots> \<le> b * a" using h assms by (intro mult_left_mono) auto
  finally show "m < a * b" by (simp add: mult.commute)
next
  assume h: "m < a * b"
  show "m div b < a"
  proof (rule ccontr)
    assume "\<not> m div b < a"
    then have "a \<le> m div b" by simp
    then have "b * a \<le> b * (m div b)" using assms by (intro mult_left_mono) auto
    moreover have "b * (m div b) \<le> m"
    proof -
      have "m = b * (m div b) + m mod b" by simp
      moreover have "0 \<le> m mod b" using assms by simp
      ultimately show ?thesis by linarith
    qed
    ultimately show False using h by (simp add: mult.commute)
  qed
qed

lemma mul_pp:
  fixes a b m :: int
  assumes "0 \<le> m" "0 < a" "0 < b"
  shows "(m sdiv b < a) = (m < a * b)"
  using assms by (simp add: sdiv_pos_pos div_less_iff_int)

lemma mul_nn:
  fixes a b m :: int
  assumes "0 \<le> m" "a < 0" "b < 0"
  shows "(a < m sdiv b) = (m < a * b)"
proof -
  have "(a < m sdiv b) = (m div (- b) < - a)" using assms by (simp add: sdiv_pos_neg) linarith
  also have "\<dots> = (m < (- a) * (- b))" using assms by (intro div_less_iff_int) simp
  finally show ?thesis by simp
qed

lemma mul_neg_quot:
  fixes x y n :: int
  assumes "n \<le> 0" "0 < x"
  shows "(y < n sdiv x) = (x * y < n)"
proof -
  have "(y < n sdiv x) = ((- n) div x < - y)" using assms by (simp add: sdiv_neg_pos) linarith
  also have "\<dots> = (- n < (- y) * x)" using assms by (intro div_less_iff_int) simp
  finally show ?thesis by (simp add: mult.commute)
qed

section \<open>Checked signed arithmetic computes the mathematical result\<close>

lemma sint_zero64: "sint (0 :: int64) = 0" by simp

lemma safeint_Add_cases:
  "safeint_Add a b =
    (if in_int64 (sint a + sint b) then (a + b, None)
     else (0, Some (OverflowError ''+'' (Int64 a) (Int64 b))))"
proof -
  have p: "sint (MaxInt64 - b) = 9223372036854775807 - sint b" if "0 < sint b"
    using that sint_sub_exact [of MaxInt64 b] sint64_upper [of b] by (simp add: sint_MaxInt64)
  have n: "sint (MinInt64 - b) = - 9223372036854775808 - sint b" if "sint b < 0"
    using that sint_sub_exact [of MinInt64 b] sint64_lower [of b] by (simp add: sint_MinInt64)
  consider "0 < sint b" | "sint b < 0" | "sint b = 0" by linarith
  then show ?thesis
  proof cases
    case 1
    then show ?thesis
      using p sint64_lower [of a] sint64_upper [of a]
      by (auto simp: safeint_Add_def word_sless_alt in_int64_def NewOverflowError_def)
  next
    case 2
    then show ?thesis
      using n sint64_lower [of a] sint64_upper [of a]
      by (auto simp: safeint_Add_def word_sless_alt in_int64_def NewOverflowError_def)
  next
    case 3
    then show ?thesis
      using sint64_lower [of a] sint64_upper [of a]
      by (auto simp: safeint_Add_def word_sless_alt in_int64_def)
  qed
qed

lemma safeint_Sub_cases:
  "safeint_Sub a b =
    (if in_int64 (sint a - sint b) then (a - b, None)
     else (0, Some (OverflowError ''-'' (Int64 a) (Int64 b))))"
proof -
  have n: "sint (MaxInt64 + b) = 9223372036854775807 + sint b" if "sint b < 0"
    using that sint_add_exact [of MaxInt64 b] sint64_lower [of b] by (simp add: sint_MaxInt64)
  have p: "sint (MinInt64 + b) = - 9223372036854775808 + sint b" if "0 < sint b"
    using that sint_add_exact [of MinInt64 b] sint64_upper [of b] by (simp add: sint_MinInt64)
  consider "0 < sint b" | "sint b < 0" | "sint b = 0" by linarith
  then show ?thesis
  proof cases
    case 1
    then show ?thesis
      using p sint64_lower [of a] sint64_upper [of a]
      by (auto simp: safeint_Sub_def word_sless_alt in_int64_def NewOverflowError_def)
  next
    case 2
    then show ?thesis
      using n sint64_lower [of a] sint64_upper [of a]
      by (auto simp: safeint_Sub_def word_sless_alt in_int64_def NewOverflowError_def)
  next
    case 3
    then show ?thesis
      using sint64_lower [of a] sint64_upper [of a]
      by (auto simp: safeint_Sub_def word_sless_alt in_int64_def)
  qed
qed

lemma sint_eq_zero_iff64: "(sint (a :: int64) = 0) = (a = 0)"
  by (simp add: signed_eq_0_iff)

lemma sint_quo_Max:
  assumes "sint b \<noteq> 0"
  shows "sint (quo64 MaxInt64 b) = 9223372036854775807 sdiv sint b"
proof -
  have "9223372036854775807 sdiv sint b \<in> {- \<bar>9223372036854775807\<bar>..\<bar>9223372036854775807\<bar>}"
    by (rule sdiv_int_range)
  then show ?thesis
    using sint_quo64 [of MaxInt64 b] by (simp add: sint_MaxInt64)
qed

lemma sint_quo_Min:
  assumes "0 < sint b"
  shows "sint (quo64 MinInt64 b) = (- 9223372036854775808) sdiv sint b"
proof -
  have "(- 9223372036854775808) sdiv sint b \<in> {- \<bar>- 9223372036854775808\<bar>..\<bar>- 9223372036854775808\<bar>}"
    by (rule sdiv_int_range)
  moreover have "(- 9223372036854775808) sdiv sint b \<le> 0"
  proof -
    have "(- 9223372036854775808) sdiv sint b = - ((- (- 9223372036854775808)) div sint b)"
      using assms by (intro sdiv_neg_pos) simp_all
    moreover have "0 \<le> (- (- 9223372036854775808)) div sint b"
      using assms by (simp add: pos_imp_zdiv_nonneg_iff)
    ultimately show ?thesis by linarith
  qed
  ultimately show ?thesis
    using sint_quo64 [of MinInt64 b] by (simp add: sint_MinInt64)
qed

lemma safeint_Mul_cases:
  "safeint_Mul a b =
    (if in_int64 (sint a * sint b) then (a * b, None)
     else (0, Some (OverflowError ''*'' (Int64 a) (Int64 b))))"
proof -
  consider (z) "a = 0 \<or> b = 0"
    | (pp) "0 < sint a" "0 < sint b"
    | (nn) "sint a < 0" "sint b < 0"
    | (pn) "0 < sint a" "sint b < 0"
    | (np) "sint a < 0" "0 < sint b"
    using sint_eq_zero_iff64 [of a] sint_eq_zero_iff64 [of b] by linarith
  then show ?thesis
  proof cases
    case z
    then show ?thesis by (auto simp: safeint_Mul_def in_int64_def)
  next
    case pp
    have nz: "a \<noteq> 0" "b \<noteq> 0" using pp by auto
    have sg: "0 <s a" "0 <s b" using pp by (simp_all add: word_sless_alt)
    have "0 < sint a * sint b" using pp by simp
    then have rng: "in_int64 (sint a * sint b) = (\<not> 9223372036854775807 < sint a * sint b)"
      unfolding in_int64_def by linarith
    have t: "(9223372036854775807 sdiv sint b < sint a) = (9223372036854775807 < sint a * sint b)"
      using pp by (intro mul_pp) simp_all
    have q: "sint (quo64 MaxInt64 b) = 9223372036854775807 sdiv sint b"
      using pp by (intro sint_quo_Max) simp
    have test: "(quo64 MaxInt64 b <s a) = (9223372036854775807 < sint a * sint b)"
      unfolding word_sless_alt q by (rule t)
    show ?thesis
      by (simp add: safeint_Mul_def NewOverflowError_def nz sg rng test)
  next
    case nn
    have nz: "a \<noteq> 0" "b \<noteq> 0" using nn by auto
    have sg: "\<not> 0 <s a" "a <s 0" "b <s 0" using nn by (simp_all add: word_sless_alt)
    have "0 < sint a * sint b" using nn by (simp add: mult_neg_neg)
    then have rng: "in_int64 (sint a * sint b) = (\<not> 9223372036854775807 < sint a * sint b)"
      unfolding in_int64_def by linarith
    have t: "(sint a < 9223372036854775807 sdiv sint b) = (9223372036854775807 < sint a * sint b)"
      using nn by (intro mul_nn) simp_all
    have q: "sint (quo64 MaxInt64 b) = 9223372036854775807 sdiv sint b"
      using nn by (intro sint_quo_Max) simp
    have test: "(a <s quo64 MaxInt64 b) = (9223372036854775807 < sint a * sint b)"
      unfolding word_sless_alt q by (rule t)
    show ?thesis
      by (simp add: safeint_Mul_def NewOverflowError_def nz sg rng test)
  next
    case pn
    have nz: "a \<noteq> 0" "b \<noteq> 0" using pn by auto
    have sg: "0 <s a" "\<not> 0 <s b" "\<not> a <s 0" "b <s 0"
      using pn by (simp_all add: word_sless_alt)
    have "sint a * sint b < 0" using pn by (simp add: mult_pos_neg)
    then have rng: "in_int64 (sint a * sint b) = (\<not> sint a * sint b < - 9223372036854775808)"
      unfolding in_int64_def by linarith
    have t: "(sint b < (- 9223372036854775808) sdiv sint a) = (sint a * sint b < - 9223372036854775808)"
      using pn by (intro mul_neg_quot) simp_all
    have q: "sint (quo64 MinInt64 a) = (- 9223372036854775808) sdiv sint a"
      using pn by (intro sint_quo_Min)
    have test: "(b <s quo64 MinInt64 a) = (sint a * sint b < - 9223372036854775808)"
      unfolding word_sless_alt q by (rule t)
    show ?thesis
      by (simp add: safeint_Mul_def NewOverflowError_def nz sg rng test)
  next
    case np
    have nz: "a \<noteq> 0" "b \<noteq> 0" using np by auto
    have sg: "\<not> 0 <s a" "0 <s b" "a <s 0" "\<not> b <s 0"
      using np by (simp_all add: word_sless_alt)
    have "sint a * sint b < 0" using np by (simp add: mult_neg_pos)
    then have rng: "in_int64 (sint a * sint b) = (\<not> sint a * sint b < - 9223372036854775808)"
      unfolding in_int64_def by linarith
    have t: "(sint a < (- 9223372036854775808) sdiv sint b) = (sint b * sint a < - 9223372036854775808)"
      using np by (intro mul_neg_quot) simp_all
    have q: "sint (quo64 MinInt64 b) = (- 9223372036854775808) sdiv sint b"
      using np by (intro sint_quo_Min)
    have test: "(a <s quo64 MinInt64 b) = (sint a * sint b < - 9223372036854775808)"
      unfolding word_sless_alt q mult.commute [of "sint a" "sint b"] by (rule t)
    show ?thesis
      by (simp add: safeint_Mul_def NewOverflowError_def nz sg rng test)
  qed
qed

lemma sint_add_fits: "in_int64 (sint a + sint b) \<Longrightarrow> sint (a + b) = sint a + sint (b :: int64)"
  unfolding in_int64_def by (intro sint_add_exact) simp_all

lemma sint_sub_fits: "in_int64 (sint a - sint b) \<Longrightarrow> sint (a - b) = sint a - sint (b :: int64)"
  unfolding in_int64_def by (intro sint_sub_exact) simp_all

lemma sint_mul_fits: "in_int64 (sint a * sint b) \<Longrightarrow> sint (a * b) = sint a * sint (b :: int64)"
  unfolding in_int64_def by (intro sint_mul_exact) simp_all

section \<open>Checked unsigned arithmetic computes the mathematical result\<close>

lemma unat_MaxUint64: "unat MaxUint64 = 18446744073709551615"
  by (simp add: MaxUint64_def)

lemma unat64_upper: "unat (x :: uint64) \<le> 18446744073709551615"
  using unsigned_less [of x, where ?'a = nat] by simp

lemma unat_Max_minus: "unat (MaxUint64 - b) = 18446744073709551615 - unat b"
proof -
  have "b \<le> MaxUint64" by (simp add: word_le_nat_alt unat_MaxUint64 unat64_upper)
  then show ?thesis by (simp add: unat_sub unat_MaxUint64)
qed

lemma unat_add_exact:
  fixes a b :: uint64
  assumes "unat a + unat b \<le> 18446744073709551615"
  shows "unat (a + b) = unat a + unat b"
  using assms by (simp add: unat_word_ariths)

lemma unat_mul_exact:
  fixes a b :: uint64
  assumes "unat a * unat b \<le> 18446744073709551615"
  shows "unat (a * b) = unat a * unat b"
  using assms by (simp add: unat_word_ariths)

lemma safeuint_Add_cases:
  "safeuint_Add a b =
    (if unat a + unat b \<le> 18446744073709551615 then (a + b, None)
     else (0, Some (OverflowError ''+'' (Uint64 a) (Uint64 b))))"
proof (cases "b = 0")
  case True
  then show ?thesis using unat64_upper [of a] by (simp add: safeuint_Add_def)
next
  case False
  then have "0 < b" by (simp add: word_greater_zero_iff)
  moreover have "(MaxUint64 - b < a) = (\<not> unat a + unat b \<le> 18446744073709551615)"
    using unat64_upper [of b] unfolding word_less_nat_alt unat_Max_minus by linarith
  ultimately show ?thesis
    by (simp add: safeuint_Add_def NewOverflowError_def)
qed

lemma safeuint_Mul_cases:
  "safeuint_Mul a b =
    (if unat a * unat b \<le> 18446744073709551615 then (a * b, None)
     else (0, Some (OverflowError ''*'' (Uint64 a) (Uint64 b))))"
proof (cases "a = 0 \<or> b = 0")
  case True
  then show ?thesis by (auto simp: safeuint_Mul_def)
next
  case False
  then have nz: "a \<noteq> 0" "b \<noteq> 0" by auto
  then have pos: "0 < unat b" by (simp add: unat_gt_0)
  have "(MaxUint64 div b < a) = (18446744073709551615 div unat b < unat a)"
    by (simp add: word_less_nat_alt unat_div unat_MaxUint64)
  also have "\<dots> = (18446744073709551615 < unat a * unat b)"
    using pos by (rule div_less_iff_less_mult)
  finally have test: "(MaxUint64 div b < a) = (\<not> unat a * unat b \<le> 18446744073709551615)"
    by auto
  show ?thesis by (simp add: safeuint_Mul_def nz test NewOverflowError_def)
qed

lemma safeuint_Sub_cases:
  "safeuint_Sub a b =
    (if unat a < unat b then (0, Some (OverflowError ''-'' (Uint64 a) (Uint64 b)))
     else (a - b, None))"
  by (simp add: safeuint_Sub_def word_less_nat_alt NewOverflowError_def)

section \<open>The bounded variants on the mathematical result\<close>

lemma safeint_AddWithLimit_cases:
  "safeint_AddWithLimit a b bound =
    (if \<not> in_int64 (sint a + sint b)
     then (0, Some (OverflowError ''+'' (Int64 a) (Int64 b)))
     else if sint bound < sint a + sint b
     then (0, Some (LimitError (Int64 (a + b)) (Int64 bound) ''addition''))
     else (a + b, None))"
  by (simp add: safeint_AddWithLimit_def safeint_Add_cases NewLimitError_def
      word_sless_alt sint_add_fits)

lemma safeint_SubWithFloor_cases:
  "safeint_SubWithFloor a b bound =
    (if \<not> in_int64 (sint a - sint b)
     then (0, Some (OverflowError ''-'' (Int64 a) (Int64 b)))
     else if sint a - sint b < sint bound
     then (0, Some (LimitError (Int64 (a - b)) (Int64 bound) ''subtraction floor''))
     else (a - b, None))"
  by (simp add: safeint_SubWithFloor_def safeint_Sub_cases NewLimitError_def
      word_sless_alt sint_sub_fits)

lemma safeint_MulWithLimit_cases:
  "safeint_MulWithLimit a b bound =
    (if \<not> in_int64 (sint a * sint b)
     then (0, Some (OverflowError ''*'' (Int64 a) (Int64 b)))
     else if sint bound < sint a * sint b
     then (0, Some (LimitError (Int64 (a * b)) (Int64 bound) ''multiplication''))
     else (a * b, None))"
  by (simp add: safeint_MulWithLimit_def safeint_Mul_cases NewLimitError_def
      word_sless_alt sint_mul_fits)

lemma unat_sub_exact:
  fixes a b :: uint64
  assumes "\<not> unat a < unat b"
  shows "unat (a - b) = unat a - unat b"
  using assms by (simp add: unat_sub word_le_nat_alt)

lemma safeuint_AddWithLimit_cases:
  "safeuint_AddWithLimit a b bound =
    (if \<not> in_uint64 (unat a + unat b)
     then (0, Some (OverflowError ''+'' (Uint64 a) (Uint64 b)))
     else if unat bound < unat a + unat b
     then (0, Some (LimitError (Uint64 (a + b)) (Uint64 bound) ''addition''))
     else (a + b, None))"
  by (simp add: safeuint_AddWithLimit_def safeuint_Add_cases NewLimitError_def
      word_less_nat_alt unat_add_exact in_uint64_def)

lemma safeuint_SubWithFloor_cases:
  "safeuint_SubWithFloor a b bound =
    (if unat a < unat b
     then (0, Some (OverflowError ''-'' (Uint64 a) (Uint64 b)))
     else if unat a - unat b < unat bound
     then (0, Some (LimitError (Uint64 (a - b)) (Uint64 bound) ''subtraction floor''))
     else (a - b, None))"
  by (simp add: safeuint_SubWithFloor_def safeuint_Sub_cases NewLimitError_def
      word_less_nat_alt unat_sub_exact)

lemma safeuint_MulWithLimit_cases:
  "safeuint_MulWithLimit a b bound =
    (if \<not> in_uint64 (unat a * unat b)
     then (0, Some (OverflowError ''*'' (Uint64 a) (Uint64 b)))
     else if unat bound < unat a * unat b
     then (0, Some (LimitError (Uint64 (a * b)) (Uint64 bound) ''multiplication''))
     else (a * b, None))"
  by (simp add: safeuint_MulWithLimit_def safeuint_Mul_cases NewLimitError_def
      word_less_nat_alt unat_mul_exact in_uint64_def)

section \<open>Quotients and remainders of the integer rounding path\<close>

lemma sdiv_smod_nonneg:
  fixes x u :: int
  assumes "0 \<le> x" "0 < u"
  shows "x sdiv u = x div u" "x smod u = x mod u"
  using assms by (simp_all add: signed_divide_int_def signed_modulo_int_def sgn_if)

lemma sdiv_smod_negative:
  fixes x u :: int
  assumes "x < 0" "0 < u"
  shows "x sdiv u = - ((- x) div u)" "x smod u = - ((- x) mod u)"
  using assms by (simp_all add: signed_divide_int_def signed_modulo_int_def sgn_if)

lemma div_mod_offset:
  fixes k u r :: int
  assumes "0 \<le> r" "r < u"
  shows "(k * u + r) div u = k" "(k * u + r) mod u = r"
  using assms by (simp_all add: div_pos_pos_trivial)

text \<open>The quotient and remainder Go computes at a point halfway between two multiples.\<close>

lemma halfway_quotient:
  fixes x h q :: int
  assumes h: "0 < h" and ev: "even q" and mid: "\<bar>q * (2 * h) - x\<bar> = h"
  shows "\<bar>x smod (2 * h)\<bar> = h"
    and "(if even (x sdiv (2 * h)) then x sdiv (2 * h)
          else if 0 \<le> x sdiv (2 * h) then x sdiv (2 * h) + 1 else x sdiv (2 * h) - 1) = q"
proof -
  let ?u = "2 * h"
  have u: "0 < ?u" "h < ?u" "0 \<le> h" using h by simp_all
  consider (up_pos) "x = q * ?u + h" "0 \<le> q"
    | (up_neg) "x = q * ?u + h" "q < 0"
    | (down_pos) "x = q * ?u - h" "0 < q"
    | (down_neg) "x = q * ?u - h" "q \<le> 0"
    using mid by (cases "0 \<le> q"; cases "0 < q"; cases "q * ?u - x \<ge> 0") auto
  then have "\<bar>x smod ?u\<bar> = h \<and>
    (if even (x sdiv ?u) then x sdiv ?u
     else if 0 \<le> x sdiv ?u then x sdiv ?u + 1 else x sdiv ?u - 1) = q"
  proof cases
    case up_pos
    have "0 \<le> q * ?u" using up_pos h by simp
    then have x0: "0 \<le> x" using up_pos h by linarith
    have "x div ?u = q" "x mod ?u = h"
      unfolding up_pos(1) using div_mod_offset [of h ?u q] u by simp_all
    then show ?thesis using sdiv_smod_nonneg [OF x0 u(1)] ev h by simp
  next
    case up_neg
    then have q1: "q + 1 \<le> 0" by simp
    have np: "(q + 1) * ?u \<le> 0" using q1 h by (simp add: mult_le_0_iff)
    have xe: "x = (q + 1) * ?u - h" using up_neg by (simp add: algebra_simps)
    have x0: "x < 0" using np h unfolding xe by linarith
    have "- x = (- q - 1) * ?u + h" using up_neg by (simp add: algebra_simps)
    then have "(- x) div ?u = - q - 1" "(- x) mod ?u = h"
      using div_mod_offset [of h ?u "- q - 1"] u by simp_all
    then have d: "x sdiv ?u = q + 1" "x smod ?u = - h"
      using sdiv_smod_negative [OF x0 u(1)] by simp_all
    have "odd (q + 1)" using ev by simp
    moreover have "q \<noteq> - 1" using ev by auto
    then have "q + 1 < 0" using q1 by linarith
    ultimately show ?thesis using d h by simp
  next
    case down_pos
    then have q1: "0 \<le> q - 1" by simp
    have nn: "0 \<le> (q - 1) * ?u" using q1 h by simp
    have xe: "x = (q - 1) * ?u + h" using down_pos by (simp add: algebra_simps)
    have x0: "0 \<le> x" using nn h unfolding xe by linarith
    from xe have "x div ?u = q - 1" "x mod ?u = h"
      using div_mod_offset [of h ?u "q - 1"] u by simp_all
    then have d: "x sdiv ?u = q - 1" "x smod ?u = h"
      using sdiv_smod_nonneg [OF x0 u(1)] by simp_all
    have "odd (q - 1)" using ev by simp
    then show ?thesis using d h q1 by simp
  next
    case down_neg
    have "q * ?u \<le> 0" using down_neg h by (simp add: mult_le_0_iff)
    then have x0: "x < 0" using down_neg h by linarith
    have "- x = (- q) * ?u + h" using down_neg by (simp add: algebra_simps)
    then have "(- x) div ?u = - q" "(- x) mod ?u = h"
      using div_mod_offset [of h ?u "- q"] u by simp_all
    then have d: "x sdiv ?u = q" "x smod ?u = - h"
      using sdiv_smod_negative [OF x0 u(1)] by simp_all
    show ?thesis using d h ev by simp
  qed
  then show "\<bar>x smod ?u\<bar> = h"
    and "(if even (x sdiv ?u) then x sdiv ?u
          else if 0 \<le> x sdiv ?u then x sdiv ?u + 1 else x sdiv ?u - 1) = q"
    by simp_all
qed

text \<open>Every halfway point has a neighbouring multiple of even quotient.\<close>

lemma halfway_even_neighbour_exists:
  fixes x u :: int
  assumes u: "0 < u" and mid: "2 * \<bar>x smod u\<bar> = u"
  shows "\<exists>q. even q \<and> 2 * \<bar>q * u - x\<bar> = u"
proof -
  define k where "k = x sdiv u"
  define r where "r = x smod u"
  have x: "x = k * u + r" unfolding k_def r_def by (simp add: sdiv_mult_smod_eq)
  have r: "2 * \<bar>r\<bar> = u" using mid by (simp add: r_def)
  show ?thesis
  proof (cases "even k")
    case True
    have "2 * \<bar>k * u - x\<bar> = u" using r unfolding x by simp
    with True show ?thesis by blast
  next
    case False
    show ?thesis
    proof (cases "0 \<le> r")
      case True
      have "(k + 1) * u - x = u - r" unfolding x by (simp add: algebra_simps)
      then have "2 * \<bar>(k + 1) * u - x\<bar> = u" using r True by simp
      moreover have "even (k + 1)" using False by simp
      ultimately show ?thesis by blast
    next
      case neg: False
      have "(k - 1) * u - x = - u - r" unfolding x by (simp add: algebra_simps)
      then have "2 * \<bar>(k - 1) * u - x\<bar> = u" using r neg by simp
      moreover have "even (k - 1)" using False by simp
      ultimately show ?thesis by blast
    qed
  qed
qed

lemma sint_quo64_pos:
  assumes "0 < sint y"
  shows "sint (quo64 x y) = sint x sdiv sint y"
proof -
  have r: "sint x sdiv sint y \<in> {- \<bar>sint x\<bar>..\<bar>sint x\<bar>}" by (rule sdiv_int_range)
  have lo: "- 9223372036854775808 \<le> sint x sdiv sint y"
    using r sint64_lower [of x] sint64_upper [of x] by auto
  have hi: "sint x sdiv sint y \<le> 9223372036854775807"
  proof (cases "0 \<le> sint x")
    case True
    then show ?thesis using r sint64_upper [of x] by auto
  next
    case False
    then have "sint x sdiv sint y = - ((- sint x) div sint y)"
      using assms by (intro sdiv_smod_negative) simp_all
    moreover have "0 \<le> (- sint x) div sint y"
      using False assms by (simp add: pos_imp_zdiv_nonneg_iff)
    ultimately show ?thesis by linarith
  qed
  show ?thesis using lo hi by (rule sint_quo64)
qed

lemma sint_rem64_pos:
  assumes "0 < sint y"
  shows "sint (rem64 x y) = sint x smod sint y"
proof -
  have "sint x smod sint y \<in> {- \<bar>sint y\<bar> + 1..\<bar>sint y\<bar> - 1}"
    using assms by (intro smod_int_range) simp
  then have "- 9223372036854775808 \<le> sint x smod sint y"
      "sint x smod sint y \<le> 9223372036854775807"
    using sint64_upper [of y] assms by auto
  then show ?thesis by (simp add: rem64_def sint_sbintrunc' stb63)
qed

lemma sint_two64: "sint (2 :: int64) = 2" by simp

lemma smod_two_eq_zero: "((k :: int) smod 2 = 0) = even k"
  by (auto simp: signed_modulo_int_def sgn_if)

lemma sint_word_of_int64:
  "in_int64 k \<Longrightarrow> sint (word_of_int k :: int64) = k"
  by (simp add: in_int64_def sint_sbintrunc' stb63)

lemma mode_distinct:
  "RoundHalfEven \<noteq> RoundDown" "RoundHalfEven \<noteq> RoundUp" "RoundHalfEven \<noteq> RoundHalfUp"
  "RoundHalfEven \<noteq> RoundHalfDown"
  by (simp_all add: RoundDown_def RoundUp_def RoundHalfUp_def RoundHalfDown_def RoundHalfEven_def)

lemma RoundHalfEven_at_half:
  fixes v unit :: int64 and q :: int
  assumes u: "0 < sint unit" and ev: "even q"
    and mid: "2 * \<bar>q * sint unit - sint v\<bar> = sint unit"
  shows "RoundInt64 v unit RoundHalfEven = (word_of_int (q * sint unit), None)"
proof -
  define h where "h = \<bar>q * sint unit - sint v\<bar>"
  define k where "k = sint v sdiv sint unit"
  have uh: "sint unit = 2 * h" using mid by (simp add: h_def)
  have h: "0 < h" using u uh by simp
  have mid': "\<bar>q * (2 * h) - sint v\<bar> = h" using h_def uh by simp
  have rem: "\<bar>sint v smod (2 * h)\<bar> = h"
    using h ev mid' by (rule halfway_quotient(1))
  have pick: "(if even k then k else if 0 \<le> k then k + 1 else k - 1) = q"
    unfolding k_def uh using h ev mid' by (rule halfway_quotient(2))
  have c0: "\<not> unit \<le>s 0" using u by (simp add: word_sle_eq)
  have half: "sint (quo64 unit 2) = h"
    using sint_quo64_pos [of 2 unit] h by (simp add: uh sdiv_smod_nonneg)
  have nhalf: "sint (- quo64 unit 2) = - h"
  proof -
    have "sint (0 - quo64 unit 2) = sint (0 :: int64) - sint (quo64 unit 2)"
      using half h sint64_upper [of "quo64 unit 2"] by (intro sint_sub_exact) simp_all
    then show ?thesis using half by simp
  qed
  have r: "sint (rem64 v unit) = sint v smod (2 * h)"
    using sint_rem64_pos [OF u, of v] by (simp add: uh)
  have athalf: "rem64 v unit = quo64 unit 2 \<or> rem64 v unit = - quo64 unit 2"
    using rem unfolding word_eq_iff_signed [where ?'a = int] r half nhalf by linarith
  have quot: "sint (quo64 v unit) = k"
    unfolding k_def using u by (rule sint_quo64_pos)
  have even_test: "(rem64 (quo64 v unit) 2 = 0) = even k"
  proof -
    have "sint (rem64 (quo64 v unit) 2) = k smod 2"
      using sint_rem64_pos [of 2 "quo64 v unit"] quot by simp
    then show ?thesis
      unfolding word_eq_iff_signed [where ?'a = int, of _ 0] by (simp add: smod_two_eq_zero)
  qed
  have sign_test: "(0 \<le>s quo64 v unit) = (0 \<le> k)" by (simp add: word_sle_eq quot)
  have w: "quo64 v unit = word_of_int k" unfolding quot [symmetric] by simp
  have m0: "quo64 v unit * unit = word_of_int (k * sint unit)"
    by (simp add: w)
  have m1: "(quo64 v unit + 1) * unit = word_of_int ((k + 1) * sint unit)"
    by (simp add: w)
  have m2: "(quo64 v unit - 1) * unit = word_of_int ((k - 1) * sint unit)"
    by (simp add: w)
  have "RoundInt64 v unit RoundHalfEven =
      (word_of_int ((if even k then k else if 0 \<le> k then k + 1 else k - 1) * sint unit), None)"
    using athalf
    by (simp add: RoundInt64_def mode_distinct c0 Let_def even_test sign_test m0 m1 m2)
  then show ?thesis by (simp only: pick)
qed

lemma invalid_not_mode:
  assumes "\<not> valid_mode mode"
  shows "mode \<noteq> RoundDown" "mode \<noteq> RoundUp" "mode \<noteq> RoundHalfUp" "mode \<noteq> RoundHalfDown"
    "mode \<noteq> RoundHalfEven" "mode \<noteq> RoundCeiling" "mode \<noteq> RoundFloor"
  using assms by (auto simp: valid_mode_def)

section \<open>Claims on checked signed arithmetic\<close>

text \<open>
  Claim C1. For every pair of signed 64-bit integers, each of \<open>Add\<close>, \<open>Sub\<close> and \<open>Mul\<close>
  of package safeint returns the mathematical sum, difference or product with no failure
  whenever that result lies between \<open>-2^63\<close> and \<open>2^63 - 1\<close>, and otherwise returns the
  value 0 together with an \<open>OverflowError\<close> (of kind \<open>ErrOverflow\<close>) that records the
  operator and both operands.
\<close>

theorem safeint_checked_exact:
  fixes a b :: int64
  shows
   "(in_int64 (sint a + sint b) \<longrightarrow>
       snd (safeint_Add a b) = None \<and> sint (fst (safeint_Add a b)) = sint a + sint b) \<and>
    (\<not> in_int64 (sint a + sint b) \<longrightarrow>
       safeint_Add a b = (0, Some (OverflowError ''+'' (Int64 a) (Int64 b))) \<and>
       error_Is (OverflowError ''+'' (Int64 a) (Int64 b)) ErrOverflow) \<and>
    (in_int64 (sint a - sint b) \<longrightarrow>
       snd (safeint_Sub a b) = None \<and> sint (fst (safeint_Sub a b)) = sint a - sint b) \<and>
    (\<not> in_int64 (sint a - sint b) \<longrightarrow>
       safeint_Sub a b = (0, Some (OverflowError ''-'' (Int64 a) (Int64 b))) \<and>
       error_Is (OverflowError ''-'' (Int64 a) (Int64 b)) ErrOverflow) \<and>
    (in_int64 (sint a * sint b) \<longrightarrow>
       snd (safeint_Mul a b) = None \<and> sint (fst (safeint_Mul a b)) = sint a * sint b) \<and>
    (\<not> in_int64 (sint a * sint b) \<longrightarrow>
       safeint_Mul a b = (0, Some (OverflowError ''*'' (Int64 a) (Int64 b))) \<and>
       error_Is (OverflowError ''*'' (Int64 a) (Int64 b)) ErrOverflow)"
proof -
  have add: "in_int64 (sint a + sint b) \<Longrightarrow> sint (a + b) = sint a + sint b"
    unfolding in_int64_def by (intro sint_add_exact) simp_all
  have sub: "in_int64 (sint a - sint b) \<Longrightarrow> sint (a - b) = sint a - sint b"
    unfolding in_int64_def by (intro sint_sub_exact) simp_all
  have mul: "in_int64 (sint a * sint b) \<Longrightarrow> sint (a * b) = sint a * sint b"
    unfolding in_int64_def by (intro sint_mul_exact) simp_all
  show ?thesis
    by (simp add: safeint_Add_cases safeint_Sub_cases safeint_Mul_cases add sub mul)
qed

text \<open>The theorem at results that fit and at the three overflows of the test-suite.\<close>

theorem safeint_checked_exact_witness:
  "in_int64 (sint (5 :: int64) + sint (7 :: int64)) \<and>
   snd (safeint_Add 5 7) = None \<and> sint (fst (safeint_Add 5 7)) = 12 \<and>
   snd (safeint_Sub 5 7) = None \<and> sint (fst (safeint_Sub 5 7)) = - 2 \<and>
   snd (safeint_Mul 5 7) = None \<and> sint (fst (safeint_Mul 5 7)) = 35 \<and>
   \<not> in_int64 (sint (9223372036854775807 :: int64) + sint (1 :: int64)) \<and>
   safeint_Add 9223372036854775807 1 =
     (0, Some (OverflowError ''+'' (Int64 9223372036854775807) (Int64 1))) \<and>
   \<not> in_int64 (sint (- 9223372036854775808 :: int64) - sint (1 :: int64)) \<and>
   safeint_Sub (- 9223372036854775808) 1 =
     (0, Some (OverflowError ''-'' (Int64 (- 9223372036854775808)) (Int64 1))) \<and>
   \<not> in_int64 (sint (922337203685477580 :: int64) * sint (11 :: int64)) \<and>
   safeint_Mul 922337203685477580 11 =
     (0, Some (OverflowError ''*'' (Int64 922337203685477580) (Int64 11)))"
  using safeint_checked_exact [of 5 7]
    safeint_checked_exact [of 9223372036854775807 1]
    safeint_checked_exact [of "- 9223372036854775808" 1]
    safeint_checked_exact [of 922337203685477580 11]
  by (simp add: in_int64_def)

text \<open>
  Claim C7. For every \<open>a\<close>, \<open>b\<close> and bound, each of \<open>AddWithLimit\<close>, \<open>SubWithFloor\<close>
  and \<open>MulWithLimit\<close> of package safeint returns the overflow failure of the underlying
  checked operation unchanged when the mathematical result does not fit; when it fits, it
  returns a \<open>LimitError\<close> (of kind \<open>ErrExceedsLimit\<close>) carrying the computed result, the
  bound and the operation name exactly when the result is above the limit (below the floor
  for \<open>SubWithFloor\<close>), and the computed result with no failure otherwise. In particular
  \<open>AddWithLimit(10, 30, 30)\<close> fails with a \<open>LimitError\<close> carrying 40 and 30.
\<close>

theorem safeint_bounded_variants:
  fixes a b bound :: int64
  shows
   "(\<not> in_int64 (sint a + sint b) \<longrightarrow>
       safeint_AddWithLimit a b bound = safeint_Add a b \<and>
       safeint_Add a b = (0, Some (OverflowError ''+'' (Int64 a) (Int64 b)))) \<and>
    (in_int64 (sint a + sint b) \<and> sint bound < sint a + sint b \<longrightarrow>
       safeint_AddWithLimit a b bound =
         (0, Some (LimitError (Int64 (a + b)) (Int64 bound) ''addition'')) \<and>
       sint (a + b) = sint a + sint b \<and>
       error_Is (LimitError (Int64 (a + b)) (Int64 bound) ''addition'') ErrExceedsLimit) \<and>
    (in_int64 (sint a + sint b) \<and> \<not> sint bound < sint a + sint b \<longrightarrow>
       snd (safeint_AddWithLimit a b bound) = None \<and>
       sint (fst (safeint_AddWithLimit a b bound)) = sint a + sint b) \<and>
    (\<not> in_int64 (sint a - sint b) \<longrightarrow>
       safeint_SubWithFloor a b bound = safeint_Sub a b \<and>
       safeint_Sub a b = (0, Some (OverflowError ''-'' (Int64 a) (Int64 b)))) \<and>
    (in_int64 (sint a - sint b) \<and> sint a - sint b < sint bound \<longrightarrow>
       safeint_SubWithFloor a b bound =
         (0, Some (LimitError (Int64 (a - b)) (Int64 bound) ''subtraction floor'')) \<and>
       sint (a - b) = sint a - sint b \<and>
       error_Is (LimitError (Int64 (a - b)) (Int64 bound) ''subtraction floor'') ErrExceedsLimit) \<and>
    (in_int64 (sint a - sint b) \<and> \<not> sint a - sint b < sint bound \<longrightarrow>
       snd (safeint_SubWithFloor a b bound) = None \<and>
       sint (fst (safeint_SubWithFloor a b bound)) = sint a - sint b) \<and>
    (\<not> in_int64 (sint a * sint b) \<longrightarrow>
       safeint_MulWithLimit a b bound = safeint_Mul a b \<and>
       safeint_Mul a b = (0, Some (OverflowError ''*'' (Int64 a) (Int64 b)))) \<and>
    (in_int64 (sint a * sint b) \<and> sint bound < sint a * sint b \<longrightarrow>
       safeint_MulWithLimit a b bound =
         (0, Some (LimitError (Int64 (a * b)) (Int64 bound) ''multiplication'')) \<and>
       sint (a * b) = sint a * sint b \<and>
       error_Is (LimitError (Int64 (a * b)) (Int64 bound) ''multiplication'') ErrExceedsLimit) \<and>
    (in_int64 (sint a * sint b) \<and> \<not> sint bound < sint a * sint b \<longrightarrow>
       snd (safeint_MulWithLimit a b bound) = None \<and>
       sint (fst (safeint_MulWithLimit a b bound)) = sint a * sint b) \<and>
    safeint_AddWithLimit 10 30 30 = (0, Some (LimitError (Int64 40) (Int64 30) ''addition''))"
proof -
  have ex: "safeint_AddWithLimit 10 30 30 = (0, Some (LimitError (Int64 40) (Int64 30) ''addition''))"
    by (simp add: safeint_AddWithLimit_def safeint_Add_cases in_int64_def NewLimitError_def)
  have add: "safeint_AddWithLimit a b bound =
      (if \<not> in_int64 (sint a + sint b) then (0, Some (OverflowError ''+'' (Int64 a) (Int64 b)))
       else if sint bound < sint a + sint b
       then (0, Some (LimitError (Int64 (a + b)) (Int64 bound) ''addition''))
       else (a + b, None))"
    by (simp add: safeint_AddWithLimit_def safeint_Add_cases NewLimitError_def
        word_sless_alt sint_add_fits)
  have sub: "safeint_SubWithFloor a b bound =
      (if \<not> in_int64 (sint a - sint b) then (0, Some (OverflowError ''-'' (Int64 a) (Int64 b)))
       else if sint a - sint b < sint bound
       then (0, Some (LimitError (Int64 (a - b)) (Int64 bound) ''subtraction floor''))
       else (a - b, None))"
    by (simp add: safeint_SubWithFloor_def safeint_Sub_cases NewLimitError_def
        word_sless_alt sint_sub_fits)
  have mul: "safeint_MulWithLimit a b bound =
      (if \<not> in_int64 (sint a * sint b) then (0, Some (OverflowError ''*'' (Int64 a) (Int64 b)))
       else if sint bound < sint a * sint b
       then (0, Some (LimitError (Int64 (a * b)) (Int64 bound) ''multiplication''))
       else (a * b, None))"
    by (simp add: safeint_MulWithLimit_def safeint_Mul_cases NewLimitError_def
        word_sless_alt sint_mul_fits)
  show ?thesis
    unfolding add sub mul
    by (simp add: ex safeint_Add_cases safeint_Sub_cases safeint_Mul_cases
        sint_add_fits sint_sub_fits sint_mul_fits)
qed

text \<open>The theorem at an overflow, at a result above its limit and at a result on its floor.\<close>

theorem safeint_bounded_variants_witness:
  "\<not> in_int64 (sint (9223372036854775807 :: int64) + sint (1 :: int64)) \<and>
   safeint_AddWithLimit 9223372036854775807 1 100 =
     (0, Some (OverflowError ''+'' (Int64 9223372036854775807) (Int64 1))) \<and>
   in_int64 (sint (10 :: int64) * sint (10 :: int64)) \<and>
   sint (50 :: int64) < sint (10 :: int64) * sint (10 :: int64) \<and>
   safeint_MulWithLimit 10 10 50 =
     (0, Some (LimitError (Int64 (10 * 10)) (Int64 50) ''multiplication'')) \<and>
   in_int64 (sint (30 :: int64) - sint (20 :: int64)) \<and>
   \<not> sint (30 :: int64) - sint (20 :: int64) < sint (10 :: int64) \<and>
   snd (safeint_SubWithFloor 30 20 10) = None \<and>
   sint (fst (safeint_SubWithFloor 30 20 10)) = 10"
  using safeint_bounded_variants [of 9223372036854775807 1 100]
    safeint_bounded_variants [of 10 10 50]
    safeint_bounded_variants [of 30 20 10]
  by (simp add: in_int64_def)

section \<open>Claims on checked unsigned arithmetic\<close>

text \<open>
  Claim C8. For every pair of unsigned 64-bit integers: \<open>Add\<close> of package safeuint returns
  the sum with no failure when it is at most \<open>MaxUint64\<close> (so \<open>Add(MaxUint64, 0)\<close> is
  \<open>MaxUint64\<close>) and an overflow failure otherwise; \<open>Sub\<close> returns the overflow failure
  exactly when \<open>a < b\<close> and the difference otherwise; \<open>Mul\<close> returns 0 when an operand
  is 0, the product when it fits and an overflow failure when it does not.
\<close>

theorem safeuint_checked_exact:
  fixes a b :: uint64
  shows
   "(in_uint64 (unat a + unat b) \<longrightarrow>
       snd (safeuint_Add a b) = None \<and> unat (fst (safeuint_Add a b)) = unat a + unat b) \<and>
    (\<not> in_uint64 (unat a + unat b) \<longrightarrow>
       safeuint_Add a b = (0, Some (OverflowError ''+'' (Uint64 a) (Uint64 b))) \<and>
       error_Is (OverflowError ''+'' (Uint64 a) (Uint64 b)) ErrOverflow) \<and>
    safeuint_Add MaxUint64 0 = (MaxUint64, None) \<and>
    (unat a < unat b \<longrightarrow>
       safeuint_Sub a b = (0, Some (OverflowError ''-'' (Uint64 a) (Uint64 b))) \<and>
       error_Is (OverflowError ''-'' (Uint64 a) (Uint64 b)) ErrOverflow) \<and>
    (\<not> unat a < unat b \<longrightarrow>
       snd (safeuint_Sub a b) = None \<and> unat (fst (safeuint_Sub a b)) + unat b = unat a) \<and>
    (a = 0 \<or> b = 0 \<longrightarrow> safeuint_Mul a b = (0, None)) \<and>
    (in_uint64 (unat a * unat b) \<longrightarrow>
       snd (safeuint_Mul a b) = None \<and> unat (fst (safeuint_Mul a b)) = unat a * unat b) \<and>
    (\<not> in_uint64 (unat a * unat b) \<longrightarrow>
       safeuint_Mul a b = (0, Some (OverflowError ''*'' (Uint64 a) (Uint64 b))) \<and>
       error_Is (OverflowError ''*'' (Uint64 a) (Uint64 b)) ErrOverflow)"
proof -
  have m0: "safeuint_Add MaxUint64 0 = (MaxUint64, None)"
    by (simp add: safeuint_Add_def)
  have sub: "\<not> unat a < unat b \<Longrightarrow> unat (a - b) + unat b = unat a"
    by (simp add: unat_sub word_le_nat_alt)
  have z: "a = 0 \<or> b = 0 \<Longrightarrow> safeuint_Mul a b = (0, None)"
    by (simp add: safeuint_Mul_def)
  show ?thesis
    using z sub
    by (simp add: m0 safeuint_Add_cases safeuint_Mul_cases safeuint_Sub_def in_uint64_def
        unat_add_exact unat_mul_exact word_less_nat_alt NewOverflowError_def unat_MaxUint64)
qed

text \<open>The theorem at small operands, at the three failures and at a zero operand.\<close>

theorem safeuint_checked_exact_witness:
  "in_uint64 (unat (5 :: uint64) + unat (7 :: uint64)) \<and>
   snd (safeuint_Add 5 7) = None \<and> unat (fst (safeuint_Add 5 7)) = 12 \<and>
   \<not> unat (7 :: uint64) < unat (5 :: uint64) \<and>
   snd (safeuint_Sub 7 5) = None \<and> unat (fst (safeuint_Sub 7 5)) + 5 = 7 \<and>
   in_uint64 (unat (5 :: uint64) * unat (7 :: uint64)) \<and>
   snd (safeuint_Mul 5 7) = None \<and> unat (fst (safeuint_Mul 5 7)) = 35 \<and>
   \<not> in_uint64 (unat (18446744073709551615 :: uint64) + unat (1 :: uint64)) \<and>
   safeuint_Add 18446744073709551615 1 =
     (0, Some (OverflowError ''+'' (Uint64 18446744073709551615) (Uint64 1))) \<and>
   unat (5 :: uint64) < unat (7 :: uint64) \<and>
   safeuint_Sub 5 7 = (0, Some (OverflowError ''-'' (Uint64 5) (Uint64 7))) \<and>
   \<not> in_uint64 (unat (18446744073709551615 :: uint64) * unat (2 :: uint64)) \<and>
   safeuint_Mul 18446744073709551615 2 =
     (0, Some (OverflowError ''*'' (Uint64 18446744073709551615) (Uint64 2))) \<and>
   safeuint_Mul 0 7 = (0, None)"
  using safeuint_checked_exact [of 5 7] safeuint_checked_exact [of 7 5]
    safeuint_checked_exact [of 18446744073709551615 1]
    safeuint_checked_exact [of 18446744073709551615 2]
    safeuint_checked_exact [of 0 7]
  by (simp add: in_uint64_def)

section \<open>Failures return the zero value\<close>

text \<open>
  Claim C10. Whenever one of the twelve operations of the two checked-arithmetic packages
  returns a failure, the number returned beside it is 0; and on a limit violation of any
  of the six bounded variants, signed or unsigned, the computed value is carried by the
  failure: the result is 0 together with a \<open>LimitError\<close> whose \<open>Value\<close> is the computed
  sum, difference or product (equal to the mathematical one), whose \<open>Limit\<close> is the bound
  and whose \<open>Operation\<close> names the variant.
\<close>

theorem failure_carries_zero:
  fixes a b bound :: "64 word"
  shows
   "(snd (safeint_Add a b) \<noteq> None \<longrightarrow> fst (safeint_Add a b) = 0) \<and>
    (snd (safeint_Sub a b) \<noteq> None \<longrightarrow> fst (safeint_Sub a b) = 0) \<and>
    (snd (safeint_Mul a b) \<noteq> None \<longrightarrow> fst (safeint_Mul a b) = 0) \<and>
    (snd (safeint_AddWithLimit a b bound) \<noteq> None \<longrightarrow>
       fst (safeint_AddWithLimit a b bound) = 0) \<and>
    (snd (safeint_SubWithFloor a b bound) \<noteq> None \<longrightarrow>
       fst (safeint_SubWithFloor a b bound) = 0) \<and>
    (snd (safeint_MulWithLimit a b bound) \<noteq> None \<longrightarrow>
       fst (safeint_MulWithLimit a b bound) = 0) \<and>
    (snd (safeuint_Add a b) \<noteq> None \<longrightarrow> fst (safeuint_Add a b) = 0) \<and>
    (snd (safeuint_Sub a b) \<noteq> None \<longrightarrow> fst (safeuint_Sub a b) = 0) \<and>
    (snd (safeuint_Mul a b) \<noteq> None \<longrightarrow> fst (safeuint_Mul a b) = 0) \<and>
    (snd (safeuint_AddWithLimit a b bound) \<noteq> None \<longrightarrow>
       fst (safeuint_AddWithLimit a b bound) = 0) \<and>
    (snd (safeuint_SubWithFloor a b bound) \<noteq> None \<longrightarrow>
       fst (safeuint_SubWithFloor a b bound) = 0) \<and>
    (snd (safeuint_MulWithLimit a b bound) \<noteq> None \<longrightarrow>
       fst (safeuint_MulWithLimit a b bound) = 0) \<and>
    (in_int64 (sint a + sint b) \<and> sint bound < sint a + sint b \<longrightarrow>
       safeint_AddWithLimit a b bound =
         (0, Some (LimitError (Int64 (a + b)) (Int64 bound) ''addition'')) \<and>
       sint (a + b) = sint a + sint b) \<and>
    (in_int64 (sint a - sint b) \<and> sint a - sint b < sint bound \<longrightarrow>
       safeint_SubWithFloor a b bound =
         (0, Some (LimitError (Int64 (a - b)) (Int64 bound) ''subtraction floor'')) \<and>
       sint (a - b) = sint a - sint b) \<and>
    (in_int64 (sint a * sint b) \<and> sint bound < sint a * sint b \<longrightarrow>
       safeint_MulWithLimit a b bound =
         (0, Some (LimitError (Int64 (a * b)) (Int64 bound) ''multiplication'')) \<and>
       sint (a * b) = sint a * sint b) \<and>
    (in_uint64 (unat a + unat b) \<and> unat bound < unat a + unat b \<longrightarrow>
       safeuint_AddWithLimit a b bound =
         (0, Some (LimitError (Uint64 (a + b)) (Uint64 bound) ''addition'')) \<and>
       unat (a + b) = unat a + unat b) \<and>
    (\<not> unat a < unat b \<and> unat a - unat b < unat bound \<longrightarrow>
       safeuint_SubWithFloor a b bound =
         (0, Some (LimitError (Uint64 (a - b)) (Uint64 bound) ''subtraction floor'')) \<and>
       unat (a - b) + unat b = unat a) \<and>
    (in_uint64 (unat a * unat b) \<and> unat bound < unat a * unat b \<longrightarrow>
       safeuint_MulWithLimit a b bound =
         (0, Some (LimitError (Uint64 (a * b)) (Uint64 bound) ''multiplication'')) \<and>
       unat (a * b) = unat a * unat b)"
proof -
  have z: "(snd (safeint_Add a b) \<noteq> None \<longrightarrow> fst (safeint_Add a b) = 0)"
    "(snd (safeint_Sub a b) \<noteq> None \<longrightarrow> fst (safeint_Sub a b) = 0)"
    "(snd (safeint_Mul a b) \<noteq> None \<longrightarrow> fst (safeint_Mul a b) = 0)"
    "(snd (safeint_AddWithLimit a b bound) \<noteq> None \<longrightarrow>
       fst (safeint_AddWithLimit a b bound) = 0)"
    "(snd (safeint_SubWithFloor a b bound) \<noteq> None \<longrightarrow>
       fst (safeint_SubWithFloor a b bound) = 0)"
    "(snd (safeint_MulWithLimit a b bound) \<noteq> None \<longrightarrow>
       fst (safeint_MulWithLimit a b bound) = 0)"
    "(snd (safeuint_Add a b) \<noteq> None \<longrightarrow> fst (safeuint_Add a b) = 0)"
    "(snd (safeuint_Sub a b) \<noteq> None \<longrightarrow> fst (safeuint_Sub a b) = 0)"
    "(snd (safeuint_Mul a b) \<noteq> None \<longrightarrow> fst (safeuint_Mul a b) = 0)"
    "(snd (safeuint_AddWithLimit a b bound) \<noteq> None \<longrightarrow>
       fst (safeuint_AddWithLimit a b bound) = 0)"
    "(snd (safeuint_SubWithFloor a b bound) \<noteq> None \<longrightarrow>
       fst (safeuint_SubWithFloor a b bound) = 0)"
    "(snd (safeuint_MulWithLimit a b bound) \<noteq> None \<longrightarrow>
       fst (safeuint_MulWithLimit a b bound) = 0)"
    by (simp_all add: safeint_Add_cases safeint_Sub_cases safeint_Mul_cases
        safeuint_Add_cases safeuint_Sub_cases safeuint_Mul_cases
        safeint_AddWithLimit_cases safeint_SubWithFloor_cases safeint_MulWithLimit_cases
        safeuint_AddWithLimit_cases safeuint_SubWithFloor_cases safeuint_MulWithLimit_cases)
  have s: "in_int64 (sint a + sint b) \<and> sint bound < sint a + sint b \<longrightarrow>
       safeint_AddWithLimit a b bound =
         (0, Some (LimitError (Int64 (a + b)) (Int64 bound) ''addition'')) \<and>
       sint (a + b) = sint a + sint b"
    "in_int64 (sint a - sint b) \<and> sint a - sint b < sint bound \<longrightarrow>
       safeint_SubWithFloor a b bound =
         (0, Some (LimitError (Int64 (a - b)) (Int64 bound) ''subtraction floor'')) \<and>
       sint (a - b) = sint a - sint b"
    "in_int64 (sint a * sint b) \<and> sint bound < sint a * sint b \<longrightarrow>
       safeint_MulWithLimit a b bound =
         (0, Some (LimitError (Int64 (a * b)) (Int64 bound) ''multiplication'')) \<and>
       sint (a * b) = sint a * sint b"
    by (simp_all add: safeint_AddWithLimit_cases safeint_SubWithFloor_cases
        safeint_MulWithLimit_cases sint_add_fits sint_sub_fits sint_mul_fits)
  have u: "in_uint64 (unat a + unat b) \<and> unat bound < unat a + unat b \<longrightarrow>
       safeuint_AddWithLimit a b bound =
         (0, Some (LimitError (Uint64 (a + b)) (Uint64 bound) ''addition'')) \<and>
       unat (a + b) = unat a + unat b"
    "\<not> unat a < unat b \<and> unat a - unat b < unat bound \<longrightarrow>
       safeuint_SubWithFloor a b bound =
         (0, Some (LimitError (Uint64 (a - b)) (Uint64 bound) ''subtraction floor'')) \<and>
       unat (a - b) + unat b = unat a"
    "in_uint64 (unat a * unat b) \<and> unat bound < unat a * unat b \<longrightarrow>
       safeuint_MulWithLimit a b bound =
         (0, Some (LimitError (Uint64 (a * b)) (Uint64 bound) ''multiplication'')) \<and>
       unat (a * b) = unat a * unat b"
    by (simp_all add: safeuint_AddWithLimit_cases safeuint_SubWithFloor_cases
        safeuint_MulWithLimit_cases unat_add_exact unat_mul_exact unat_sub_exact
        in_uint64_def)
  show ?thesis by (intro conjI z s u)
qed

text \<open>
  The theorem at a failing input of each of the twelve operations and at a limit violation
  of each of the six bounded variants.
\<close>

theorem failure_carries_zero_witness:
  "snd (safeint_Add 9223372036854775807 1) \<noteq> None \<and>
   fst (safeint_Add 9223372036854775807 1) = 0 \<and>
   snd (safeint_Sub (- 9223372036854775808) 2) \<noteq> None \<and>
   fst (safeint_Sub (- 9223372036854775808) 2) = 0 \<and>
   snd (safeint_Mul (- 9223372036854775808) 2) \<noteq> None \<and>
   fst (safeint_Mul (- 9223372036854775808) 2) = 0 \<and>
   snd (safeint_AddWithLimit 9223372036854775807 1 30) \<noteq> None \<and>
   fst (safeint_AddWithLimit 9223372036854775807 1 30) = 0 \<and>
   snd (safeint_SubWithFloor 5 7 0) \<noteq> None \<and>
   fst (safeint_SubWithFloor 5 7 0) = 0 \<and>
   snd (safeint_MulWithLimit 9223372036854775807 1 30) \<noteq> None \<and>
   fst (safeint_MulWithLimit 9223372036854775807 1 30) = 0 \<and>
   snd (safeuint_Add 18446744073709551615 1) \<noteq> None \<and>
   fst (safeuint_Add 18446744073709551615 1) = 0 \<and>
   snd (safeuint_Sub 5 7) \<noteq> None \<and>
   fst (safeuint_Sub 5 7) = 0 \<and>
   snd (safeuint_Mul 18446744073709551615 2) \<noteq> None \<and>
   fst (safeuint_Mul 18446744073709551615 2) = 0 \<and>
   snd (safeuint_AddWithLimit 9223372036854775807 1 30) \<noteq> None \<and>
   fst (safeuint_AddWithLimit 9223372036854775807 1 30) = 0 \<and>
   snd (safeuint_SubWithFloor 5 7 0) \<noteq> None \<and>
   fst (safeuint_SubWithFloor 5 7 0) = 0 \<and>
   snd (safeuint_MulWithLimit 9223372036854775807 1 30) \<noteq> None \<and>
   fst (safeuint_MulWithLimit 9223372036854775807 1 30) = 0 \<and>
   in_int64 (sint (10 :: int64) + sint (30 :: int64)) \<and>
   sint (30 :: int64) < sint (10 :: int64) + sint (30 :: int64) \<and>
   safeint_AddWithLimit 10 30 30 = (0, Some (LimitError (Int64 40) (Int64 30) ''addition'')) \<and>
   in_int64 (sint (5 :: int64) - sint (7 :: int64)) \<and>
   sint (5 :: int64) - sint (7 :: int64) < sint (0 :: int64) \<and>
   safeint_SubWithFloor 5 7 0 =
     (0, Some (LimitError (Int64 (- 2)) (Int64 0) ''subtraction floor'')) \<and>
   in_int64 (sint (10 :: int64) * sint (10 :: int64)) \<and>
   sint (50 :: int64) < sint (10 :: int64) * sint (10 :: int64) \<and>
   safeint_MulWithLimit 10 10 50 =
     (0, Some (LimitError (Int64 100) (Int64 50) ''multiplication'')) \<and>
   in_uint64 (unat (10 :: uint64) + unat (30 :: uint64)) \<and>
   unat (30 :: uint64) < unat (10 :: uint64) + unat (30 :: uint64) \<and>
   safeuint_AddWithLimit 10 30 30 =
     (0, Some (LimitError (Uint64 40) (Uint64 30) ''addition'')) \<and>
   \<not> unat (30 :: uint64) < unat (25 :: uint64) \<and>
   unat (30 :: uint64) - unat (25 :: uint64) < unat (10 :: uint64) \<and>
   safeuint_SubWithFloor 30 25 10 =
     (0, Some (LimitError (Uint64 5) (Uint64 10) ''subtraction floor'')) \<and>
   in_uint64 (unat (10 :: uint64) * unat (10 :: uint64)) \<and>
   unat (50 :: uint64) < unat (10 :: uint64) * unat (10 :: uint64) \<and>
   safeuint_MulWithLimit 10 10 50 =
     (0, Some (LimitError (Uint64 100) (Uint64 50) ''multiplication''))"
proof -
  have e: "snd (safeint_Add 9223372036854775807 1) \<noteq> None"
    "snd (safeint_Sub (- 9223372036854775808) 2) \<noteq> None"
    "snd (safeint_Mul (- 9223372036854775808) 2) \<noteq> None"
    "snd (safeint_AddWithLimit 9223372036854775807 1 30) \<noteq> None"
    "snd (safeint_SubWithFloor 5 7 0) \<noteq> None"
    "snd (safeint_MulWithLimit 9223372036854775807 1 30) \<noteq> None"
    "snd (safeuint_Add 18446744073709551615 1) \<noteq> None"
    "snd (safeuint_Sub 5 7) \<noteq> None"
    "snd (safeuint_Mul 18446744073709551615 2) \<noteq> None"
    "snd (safeuint_AddWithLimit 9223372036854775807 1 30) \<noteq> None"
    "snd (safeuint_SubWithFloor 5 7 0) \<noteq> None"
    "snd (safeuint_MulWithLimit 9223372036854775807 1 30) \<noteq> None"
    by (simp_all add: safeint_AddWithLimit_cases safeint_SubWithFloor_cases
        safeint_MulWithLimit_cases safeuint_AddWithLimit_cases safeuint_SubWithFloor_cases
        safeuint_MulWithLimit_cases safeint_Add_cases safeint_Sub_cases safeint_Mul_cases
        safeuint_Add_cases safeuint_Sub_cases safeuint_Mul_cases in_int64_def in_uint64_def)
  show ?thesis
    using e failure_carries_zero [of 9223372036854775807 1 30]
      failure_carries_zero [of "- 9223372036854775808" 2 0]
      failure_carries_zero [of 5 7 0]
      failure_carries_zero [of 18446744073709551615 1 0]
      failure_carries_zero [of 18446744073709551615 2 0]
      failure_carries_zero [of 10 30 30]
      failure_carries_zero [of 10 10 50]
      failure_carries_zero [of 30 25 10]
    by (simp add: in_int64_def in_uint64_def)
qed

section \<open>Claims on the integer rounding path\<close>

text \<open>
  Claim C2. Rounding an already-aligned value is the identity under every mode. On the
  code it is not: \<open>-150\<close> is a multiple of 10, and \<open>RoundInt64(-150, 10, RoundDown)\<close>
  returns \<open>-140\<close>. The negative branch of \<open>RoundDown\<close> adds \<open>unit - 1\<close> before a
  division that already truncates toward zero.
\<close>

theorem RoundDown_aligned_negative_150:
  "rem64 (- 150) 10 = 0 \<and>
   RoundInt64 (- 150) 10 RoundDown = (- 140, None) \<and>
   sint (fst (RoundInt64 (- 150) 10 RoundDown)) = - 140"
  by (simp add: RoundInt64_def RoundDown_def quo64_def rem64_def signed_divide_int_def
      signed_modulo_int_def word_sle_eq)

text \<open>
  Claim C3. For a negative value \<open>RoundDown\<close> truncates toward zero to a multiple of the
  unit, so \<open>-155\<close> with unit 10 yields \<open>-150\<close>. The code returns \<open>-140\<close> there, a
  multiple that is not even adjacent to \<open>-155\<close>.
\<close>

theorem RoundDown_negative_155:
  "RoundInt64 (- 155) 10 RoundDown = (- 140, None) \<and>
   sint (fst (RoundInt64 (- 155) 10 RoundDown)) = - 140"
  by (simp add: RoundInt64_def RoundDown_def quo64_def signed_divide_int_def word_sle_eq)

text \<open>
  Claim C4. For a negative value \<open>RoundUp\<close> rounds away from zero, so \<open>-155\<close> with
  unit 10 yields \<open>-160\<close>. The code returns \<open>-150\<close> there: its negative branch is the
  bare truncating division, which rounds toward zero.
\<close>

theorem RoundUp_negative_155:
  "RoundInt64 (- 155) 10 RoundUp = (- 150, None) \<and>
   sint (fst (RoundInt64 (- 155) 10 RoundUp)) = - 150"
  by (simp add: RoundInt64_def RoundDown_def RoundUp_def quo64_def signed_divide_int_def
      word_sle_eq)

text \<open>
  Claim C6, as amended. For every \<open>unit > 0\<close> and every value exactly halfway between two
  adjacent multiples of the unit, \<open>RoundInt64(value, unit, RoundHalfEven)\<close> returns, with
  no failure, the neighbouring multiple \<open>q * unit\<close> whose quotient \<open>q\<close> is even, provided
  that multiple lies in the range of \<open>int64\<close>. The neighbour is given by its quotient:
  \<open>q\<close> is even and \<open>q * unit\<close> is at distance \<open>unit / 2\<close> from the value; by
  \<open>halfway_even_neighbour_exists\<close> every value whose remainder is \<open>\<plusminus>unit / 2\<close> has one.
\<close>

theorem RoundHalfEven_even_neighbour:
  fixes v unit :: int64 and q :: int
  assumes "0 < sint unit" and "even q"
    and "2 * \<bar>q * sint unit - sint v\<bar> = sint unit"
    and "in_int64 (q * sint unit)"
  shows "snd (RoundInt64 v unit RoundHalfEven) = None \<and>
    sint (fst (RoundInt64 v unit RoundHalfEven)) = q * sint unit"
proof -
  have r: "RoundInt64 v unit RoundHalfEven = (word_of_int (q * sint unit), None)"
    using assms(1-3) by (rule RoundHalfEven_at_half)
  show ?thesis
    unfolding r fst_conv snd_conv by (intro conjI refl sint_word_of_int64 assms(4))
qed

text \<open>
  The theorem at the two inputs of the test-suite: 150 and 170 with unit 20 both round to
  160, of quotient 8.
\<close>

theorem RoundHalfEven_even_neighbour_witness:
  "0 < sint (20 :: int64) \<and> even (8 :: int) \<and>
   2 * \<bar>8 * sint (20 :: int64) - sint (150 :: int64)\<bar> = sint (20 :: int64) \<and>
   2 * \<bar>8 * sint (20 :: int64) - sint (170 :: int64)\<bar> = sint (20 :: int64) \<and>
   in_int64 (8 * sint (20 :: int64)) \<and>
   snd (RoundInt64 150 20 RoundHalfEven) = None \<and>
   sint (fst (RoundInt64 150 20 RoundHalfEven)) = 160 \<and>
   snd (RoundInt64 170 20 RoundHalfEven) = None \<and>
   sint (fst (RoundInt64 170 20 RoundHalfEven)) = 160"
  using RoundHalfEven_even_neighbour [of 20 8 150] RoundHalfEven_even_neighbour [of 20 8 170]
  by (simp add: in_int64_def)

text \<open>
  Claim C6 as stated, for every \<open>int64\<close> value, fails where the even neighbour is not an
  \<open>int64\<close>: \<open>MaxInt64\<close> is halfway between the multiples \<open>2^63 - 2\<close> and \<open>2^63\<close> of 2,
  the quotient \<open>2^62 - 1\<close> is odd, and \<open>(quotient + 1) * unit\<close> wraps to \<open>MinInt64\<close>,
  which is no neighbour of \<open>MaxInt64\<close>.
\<close>

theorem RoundHalfEven_wraps_at_MaxInt64:
  "0 < sint (2 :: int64) \<and>
   2 * \<bar>sint (9223372036854775807 :: int64) smod sint (2 :: int64)\<bar> = sint (2 :: int64) \<and>
   RoundInt64 9223372036854775807 2 RoundHalfEven = (- 9223372036854775808, None) \<and>
   sint (fst (RoundInt64 9223372036854775807 2 RoundHalfEven)) = - 9223372036854775808"
  by (simp add: RoundInt64_def RoundDown_def RoundUp_def RoundHalfUp_def RoundHalfDown_def
      RoundHalfEven_def quo64_def rem64_def signed_divide_int_def signed_modulo_int_def
      word_sle_eq word_sless_alt)

section \<open>Claims on the argument checks of the rounding functions\<close>

text \<open>
  Claim C5, as amended. A mode outside the seven constants yields \<open>ErrInvalidRounding\<close>
  from \<open>RoundInt64\<close> for every value when \<open>unit > 0\<close>, and from \<open>RoundFloat64\<close> for every
  finite value when \<open>decimals \<ge> 0\<close>. The argument checks come first: with \<open>unit \<le> 0\<close>
  or \<open>decimals < 0\<close> the failure is \<open>ErrInvalidPrecision\<close>, and with \<open>decimals \<ge> 0\<close> a NaN
  or an infinity is returned unchanged with no failure.
\<close>

theorem unrecognized_mode_after_argument_checks:
  assumes "\<not> valid_mode mode"
  shows
   "(unit \<le>s 0 \<longrightarrow> RoundInt64 v unit mode = (0, Some ErrInvalidPrecision)) \<and>
    (0 <s unit \<longrightarrow> RoundInt64 v unit mode = (0, Some ErrInvalidRounding)) \<and>
    (decimals < 0 \<longrightarrow>
       RoundFloat64 fp x decimals mode = (float_zero, Some ErrInvalidPrecision)) \<and>
    (0 \<le> decimals \<and> (IsNaN x \<or> IsInf x 0) \<longrightarrow>
       RoundFloat64 fp x decimals mode = (x, None)) \<and>
    (0 \<le> decimals \<and> \<not> IsNaN x \<and> \<not> IsInf x 0 \<longrightarrow>
       RoundFloat64 fp x decimals mode = (float_zero, Some ErrInvalidRounding))"
proof -
  have i1: "unit \<le>s 0 \<Longrightarrow> RoundInt64 v unit mode = (0, Some ErrInvalidPrecision)"
    by (simp add: RoundInt64_def)
  have i2: "0 <s unit \<Longrightarrow> RoundInt64 v unit mode = (0, Some ErrInvalidRounding)"
    using invalid_not_mode [OF assms]
    by (simp add: RoundInt64_def word_sle_eq word_sless_alt)
  have f1: "decimals < 0 \<Longrightarrow>
      RoundFloat64 fp x decimals mode = (float_zero, Some ErrInvalidPrecision)"
    by (simp add: RoundFloat64_def)
  have f2: "0 \<le> decimals \<Longrightarrow> IsNaN x \<or> IsInf x 0 \<Longrightarrow>
      RoundFloat64 fp x decimals mode = (x, None)"
    by (auto simp: RoundFloat64_def)
  have f3: "0 \<le> decimals \<Longrightarrow> \<not> IsNaN x \<Longrightarrow> \<not> IsInf x 0 \<Longrightarrow>
      RoundFloat64 fp x decimals mode = (float_zero, Some ErrInvalidRounding)"
    using invalid_not_mode [OF assms] by (simp add: RoundFloat64_def Let_def)
  from i1 i2 f1 f2 f3 show ?thesis by blast
qed

text \<open>
  The theorem at the unknown mode 99, on each of its five branches.
\<close>

theorem unrecognized_mode_witness:
  "\<forall>fp. \<not> valid_mode 99 \<and>
    (0 :: int64) \<le>s 0 \<and> RoundInt64 155 0 99 = (0, Some ErrInvalidPrecision) \<and>
    (0 :: int64) <s 10 \<and> RoundInt64 155 10 99 = (0, Some ErrInvalidRounding) \<and>
    RoundFloat64 fp 0x40251C28F5C28F5C (- 1) 99 = (float_zero, Some ErrInvalidPrecision) \<and>
    IsNaN 0x7FF8000000000001 \<and>
    RoundFloat64 fp 0x7FF8000000000001 2 99 = (0x7FF8000000000001, None) \<and>
    \<not> IsNaN 0x40251C28F5C28F5C \<and> \<not> IsInf 0x40251C28F5C28F5C 0 \<and>
    RoundFloat64 fp 0x40251C28F5C28F5C 2 99 = (float_zero, Some ErrInvalidRounding)"
proof
  fix fp
  have m: "\<not> valid_mode 99"
    by (simp add: valid_mode_def RoundDown_def RoundUp_def RoundHalfUp_def RoundHalfDown_def
        RoundHalfEven_def RoundCeiling_def RoundFloor_def)
  have c: "IsNaN 0x7FF8000000000001" "\<not> IsNaN 0x40251C28F5C28F5C"
    "\<not> IsInf 0x40251C28F5C28F5C 0"
    by (simp_all add: IsNaN_def IsInf_def float_pos_inf_def float_neg_inf_def)
  show "\<not> valid_mode 99 \<and>
    (0 :: int64) \<le>s 0 \<and> RoundInt64 155 0 99 = (0, Some ErrInvalidPrecision) \<and>
    (0 :: int64) <s 10 \<and> RoundInt64 155 10 99 = (0, Some ErrInvalidRounding) \<and>
    RoundFloat64 fp 0x40251C28F5C28F5C (- 1) 99 = (float_zero, Some ErrInvalidPrecision) \<and>
    IsNaN 0x7FF8000000000001 \<and>
    RoundFloat64 fp 0x7FF8000000000001 2 99 = (0x7FF8000000000001, None) \<and>
    \<not> IsNaN 0x40251C28F5C28F5C \<and> \<not> IsInf 0x40251C28F5C28F5C 0 \<and>
    RoundFloat64 fp 0x40251C28F5C28F5C 2 99 = (float_zero, Some ErrInvalidRounding)"
    using m c
      unrecognized_mode_after_argument_checks [OF m, of 0 155 "- 1" fp "0x40251C28F5C28F5C"]
      unrecognized_mode_after_argument_checks [OF m, of 10 155 2 fp "0x7FF8000000000001"]
      unrecognized_mode_after_argument_checks [OF m, of 10 155 2 fp "0x40251C28F5C28F5C"]
    by (simp add: word_sle_eq word_sless_alt)
qed

text \<open>
  Claim C5 as stated, for every unit, fails at unit 0: the unknown mode 99 is answered by
  \<open>ErrInvalidPrecision\<close>.
\<close>

theorem unrecognized_mode_zero_unit:
  "\<not> valid_mode 99 \<and> RoundInt64 155 0 99 = (0, Some ErrInvalidPrecision)"
  by (simp add: RoundInt64_def word_sle_eq valid_mode_def RoundDown_def RoundUp_def
      RoundHalfUp_def RoundHalfDown_def RoundHalfEven_def RoundCeiling_def RoundFloor_def)

text \<open>
  Claim C9. For every \<open>decimals \<ge> 0\<close> and every mode, valid or not, \<open>RoundFloat64\<close>
  applied to a NaN, to positive infinity or to negative infinity returns that input
  unchanged with no failure, whatever the floating-point arithmetic does.
\<close>

theorem special_values_pass_through:
  assumes "0 \<le> decimals" and "IsNaN x \<or> IsInf x 1 \<or> IsInf x (- 1)"
  shows "RoundFloat64 fp x decimals mode = (x, None)"
  using assms by (auto simp: RoundFloat64_def IsInf_def)

text \<open>
  The theorem at the NaN of \<open>math.NaN()\<close> and at the two infinities.
\<close>

theorem special_values_pass_through_witness:
  "\<forall>fp. (0 :: int) \<le> 2 \<and> IsNaN 0x7FF8000000000001 \<and>
     IsInf float_pos_inf 1 \<and> IsInf float_neg_inf (- 1) \<and>
     RoundFloat64 fp 0x7FF8000000000001 2 RoundHalfUp = (0x7FF8000000000001, None) \<and>
     RoundFloat64 fp float_pos_inf 2 RoundHalfUp = (float_pos_inf, None) \<and>
     RoundFloat64 fp float_neg_inf 0 99 = (float_neg_inf, None)"
proof
  fix fp
  have c: "IsNaN 0x7FF8000000000001" "IsInf float_pos_inf 1" "IsInf float_neg_inf (- 1)"
    by (simp_all add: IsNaN_def IsInf_def float_pos_inf_def float_neg_inf_def)
  show "(0 :: int) \<le> 2 \<and> IsNaN 0x7FF8000000000001 \<and>
     IsInf float_pos_inf 1 \<and> IsInf float_neg_inf (- 1) \<and>
     RoundFloat64 fp 0x7FF8000000000001 2 RoundHalfUp = (0x7FF8000000000001, None) \<and>
     RoundFloat64 fp float_pos_inf 2 RoundHalfUp = (float_pos_inf, None) \<and>
     RoundFloat64 fp float_neg_inf 0 99 = (float_neg_inf, None)"
    using c
      special_values_pass_through [of 2 "0x7FF8000000000001" fp RoundHalfUp]
      special_values_pass_through [of 2 float_pos_inf fp RoundHalfUp]
      special_values_pass_through [of 0 float_neg_inf fp 99]
    by simp
qed

end
